theory Spec2Isabelle
  imports Main "HOL-Library.DAList"
begin

section \<open>Values crossing the JavaScript boundary\<close>

text \<open>
  The tool handler of \<^verbatim>\<open>server.ts\<close> receives its optional arguments as
  \<^verbatim>\<open>string | undefined\<close> (here \<open>string option\<close>, \<open>None\<close> for \<^verbatim>\<open>undefined\<close>) and
  gets values typed \<^verbatim>\<open>string | null\<close> back from the window bridge. The cast
  \<^verbatim>\<open>json as string\<close> is unchecked, so \<^verbatim>\<open>undefined\<close> can flow where a string is
  declared. \<open>jstext\<close> holds the three values such an expression can have.
\<close>

datatype jstext = JNull | JUndefined | JString string

text \<open>The template literal \<^verbatim>\<open>`${windowState}`\<close>.\<close>

fun template :: "jstext \<Rightarrow> string" where
  "template JNull = ''null''"
| "template JUndefined = ''undefined''"
| "template (JString s) = s"

text \<open>The cast \<^verbatim>\<open>json as string\<close>: no check at run time.\<close>

fun as_string :: "string option \<Rightarrow> jstext" where
  "as_string None = JUndefined"
| "as_string (Some s) = JString s"

text \<open>
  A value of the parsed request (body field, header, query parameter), as far as the
  message handler looks at it: its truthiness, and whether it is a string that can be a
  key of the transports map.
\<close>

datatype jsval = Undefined | Null | Bool bool | Num int | Str string | Object

fun truthy :: "jsval \<Rightarrow> bool" where
  "truthy Undefined = False"
| "truthy Null = False"
| "truthy (Bool b) = b"
| "truthy (Num k) = (k \<noteq> 0)"
| "truthy (Str s) = (s \<noteq> [])"
| "truthy Object = True"

section \<open>Node's path functions\<close>

text \<open>
  \<^verbatim>\<open>path.extname\<close> and \<^verbatim>\<open>path.basename\<close> (POSIX), on a name that is one path segment
  (what reading a directory returns: no separator). The extension starts at the last
  dot; there is none when the name has no dot, when its only dot is its first character,
  or when the name is \<^verbatim>\<open>..\<close>.
\<close>

definition extname :: "string \<Rightarrow> string" where
  "extname p =
    (let startDot = length p - Suc (length (takeWhile (\<lambda>c. c \<noteq> CHR ''.'') (rev p)))
     in if CHR ''.'' \<in> set p \<and> startDot \<noteq> 0 \<and> p \<noteq> ''..'' then drop startDot p else [])"

definition basename :: "string \<Rightarrow> string \<Rightarrow> string" where
  "basename p suffix =
    (if suffix \<noteq> [] \<and> length suffix \<le> length p then
       (if suffix = p then []
        else if drop (length p - length suffix) p = suffix
          then take (length p - length suffix) p
        else p)
     else p)"

text \<open>
  \<^verbatim>\<open>path.join(dir, fileName)\<close> (POSIX) for an absolute directory given by its
  segments: the file name is cut at each separator and its segments are applied in turn.
  An empty segment and \<^verbatim>\<open>.\<close> change nothing, \<^verbatim>\<open>..\<close> leaves the directory entered last
  (the root has none to leave), any other segment is entered.
\<close>

fun split_path :: "string \<Rightarrow> string list" where
  "split_path [] = [[]]"
| "split_path (c # cs) =
    (if c = CHR ''/'' then [] # split_path cs
     else (case split_path cs of [] \<Rightarrow> [[c]] | s # ss \<Rightarrow> (c # s) # ss))"

fun resolve :: "string list \<Rightarrow> string list \<Rightarrow> string list" where
  "resolve dir [] = dir"
| "resolve dir (s # ss) =
    (if s = [] \<or> s = ''.'' then resolve dir ss
     else if s = ''..'' then resolve (butlast dir) ss
     else resolve (dir @ [s]) ss)"

definition path_join :: "string list \<Rightarrow> string \<Rightarrow> string list" where
  "path_join dir fileName = resolve dir (split_path fileName)"

text \<open>The entry of \<open>dir\<close> that the joined path names, if it names one.\<close>

definition entry_of :: "string list \<Rightarrow> string \<Rightarrow> string option" where
  "entry_of dir fileName =
    (let p = path_join dir fileName
     in if p \<noteq> [] \<and> butlast p = dir then Some (last p) else None)"

section \<open>The world outside the dispatcher\<close>

text \<open>
  The handler's \<^verbatim>\<open>filePath\<close>, \<^verbatim>\<open>path.join(uploadsDir, fileName)\<close>, by the file name
  it was joined from.
\<close>

datatype path = InUploadsDir string

text \<open>What the dispatcher does to the outside, in the order it does it.\<close>

datatype effect =
    Wrote path string
  | Notified string
  | OpenRequested path
  | Injected string jstext

text \<open>
  \<open>uploadsDir\<close> is the absolute directory \<^verbatim>\<open>getUploadsDir()\<close> of \<^verbatim>\<open>utils/paths\<close>
  returns, by its segments. \<open>files\<close> are the files in it (entry name and content, in
  the order a directory read returns them; no two entries share a name, and names are
  compared as they are written); \<open>elsewhere\<close> are the files that are not entries of
  it, by their absolute paths, since nothing keeps a name from holding separators.
  \<open>write_fails\<close> says for which file names the operating system rejects a write.
  \<open>live\<close> is the state each surface has reported (\<open>JNull\<close> when it has reported
  none) and \<open>schema\<close> what it has reported as the description of that state; \<open>trace\<close>
  collects the effects.
\<close>

record world =
  uploadsDir :: "string list"
  files :: "(string, string) alist"
  elsewhere :: "(string list, string) alist"
  write_fails :: "string \<Rightarrow> bool"
  live :: "string \<Rightarrow> jstext"
  schema :: "string \<Rightarrow> jstext"
  trace :: "effect list"

definition startup :: world where
  "startup = \<lparr>uploadsDir = [''data'', ''uploads''], files = DAList.empty,
              elsewhere = DAList.empty, write_fails = (\<lambda>_. False), live = (\<lambda>_. JNull),
              schema = (\<lambda>_. JNull), trace = []\<rparr>"

text \<open>An exception that leaves the handler, which catches none.\<close>

datatype failure = WriteRejected path

text \<open>The file a path names holds the content \<open>c\<close>: created, or replaced.\<close>

fun store_file :: "world \<Rightarrow> path \<Rightarrow> string \<Rightarrow> world" where
  "store_file w (InUploadsDir f) c =
    (case entry_of (uploadsDir w) f of
       Some e \<Rightarrow> w\<lparr>files := DAList.update e c (files w)\<rparr>
     | None \<Rightarrow> w\<lparr>elsewhere := DAList.update (path_join (uploadsDir w) f) c (elsewhere w)\<rparr>)"

text \<open>The content of the file a path names, if there is such a file.\<close>

fun stored :: "world \<Rightarrow> path \<Rightarrow> string option" where
  "stored w (InUploadsDir f) =
    (case entry_of (uploadsDir w) f of
       Some e \<Rightarrow> DAList.lookup (files w) e
     | None \<Rightarrow> DAList.lookup (elsewhere w) (path_join (uploadsDir w) f))"

text \<open>
  \<^verbatim>\<open>await fs.promises.writeFile(filePath, tsx)\<close>: a rejected write throws out of the
  handler, an accepted one stores the content.
\<close>

fun writeFile :: "world \<Rightarrow> path \<Rightarrow> string \<Rightarrow> failure + world" where
  "writeFile w (InUploadsDir f) c =
    (if write_fails w f then Inl (WriteRejected (InUploadsDir f))
     else Inr ((store_file w (InUploadsDir f) c)\<lparr>trace := trace w @ [Wrote (InUploadsDir f) c]\<rparr>))"

text \<open>\<^verbatim>\<open>mcpServer.server.notification({method: ...})\<close>.\<close>

definition notification :: "world \<Rightarrow> string \<Rightarrow> world" where
  "notification w method = w\<lparr>trace := trace w @ [Notified method]\<rparr>"

subsection \<open>Named surfaces and the window bridge\<close>

text \<open>
  The handler's \<^verbatim>\<open>fileName\<close> and \<^verbatim>\<open>filePath\<close> for a name, and the backing content
  of the surface of that name: what the file at that path holds.
\<close>

definition filePath :: "string \<Rightarrow> path" where
  "filePath n = InUploadsDir (n @ ''.tsx'')"

definition backing_content :: "world \<Rightarrow> string \<Rightarrow> string option" where
  "backing_content w n = stored w (filePath n)"

text \<open>
  What the bridge hands over for a surface that exists: the value the surface has
  reported, and \<^verbatim>\<open>undefined\<close>, not \<^verbatim>\<open>null\<close>, where it has reported none.
\<close>

fun reported :: "jstext \<Rightarrow> jstext" where
  "reported JNull = JUndefined"
| "reported v = v"

text \<open>
  Modelled from the spec: \<^verbatim>\<open>readWindow\<close> of \<^verbatim>\<open>main.ts\<close>, which is not among the
  sources. "Existence is determined by presence of backing content", "a surface can
  exist in storage without yet having reported live state", and get on it "succeeds
  (no NotFoundError), even if the reported live state is absent/null": the bridge
  answers \<^verbatim>\<open>null\<close>, which the handler reads as "window does not exist", exactly for a
  name without backing content. A call of the bridge that never settles or that rejects
  is not modelled.
\<close>

definition readWindow :: "world \<Rightarrow> string \<Rightarrow> jstext" where
  "readWindow w n = (if backing_content w n = None then JNull else reported (live w n))"

text \<open>
  Modelled from the spec: \<^verbatim>\<open>injectWindow\<close> of \<^verbatim>\<open>main.ts\<close>. "write live state",
  answering the "updated live state"; \<^verbatim>\<open>null\<close> and no effect for a name whose surface
  does not exist ("never creates it as a side effect").
\<close>

definition injectWindow :: "world \<Rightarrow> string \<Rightarrow> jstext \<Rightarrow> jstext \<times> world" where
  "injectWindow w n v =
    (if backing_content w n = None then (JNull, w)
     else (v, w\<lparr>live := (live w)(n := v), trace := trace w @ [Injected n v]\<rparr>))"

text \<open>
  Modelled from the spec: \<^verbatim>\<open>describeWindow\<close> of \<^verbatim>\<open>main.ts\<close>. "read schema",
  \<^verbatim>\<open>null\<close> for a name whose surface does not exist.
\<close>

definition describeWindow :: "world \<Rightarrow> string \<Rightarrow> jstext" where
  "describeWindow w n = (if backing_content w n = None then JNull else reported (schema w n))"

text \<open>
  Modelled from the spec: \<^verbatim>\<open>openFile\<close> of \<^verbatim>\<open>main.ts\<close>. It "requests the Surface Store
  to open/render" the content and "that the rendering surface becomes visible"; the
  handler neither awaits it nor reads a result. Whether the surface exists does not
  depend on it, only on the backing content.
\<close>

definition openFile :: "world \<Rightarrow> path \<Rightarrow> world" where
  "openFile w p = w\<lparr>trace := trace w @ [OpenRequested p]\<rparr>"

text \<open>
  Modelled from the spec: the rendering process, which the dispatcher does not control,
  reports the live state \<open>s\<close> of surface \<open>n\<close>.
\<close>

definition surface_reports :: "string \<Rightarrow> string \<Rightarrow> world \<Rightarrow> world" where
  "surface_reports n s w = w\<lparr>live := (live w)(n := JString s)\<rparr>"

text \<open>
  Modelled from the spec: \<^verbatim>\<open>listFiles\<close> of \<^verbatim>\<open>main.ts\<close>, the names of the entries of
  the uploads directory ("scanning backing content").
\<close>

definition listFiles :: "world \<Rightarrow> string list" where
  "listFiles w = map fst (DAList.impl_of (files w))"

section \<open>The \<^verbatim>\<open>pop-ui\<close> tool\<close>

datatype mode = MShow | MGet | MSet | MDescribe

record invocation =
  name :: string
  mode :: "mode option"
  json :: "string option"
  tsx :: "string option"

text \<open>
  The handler's result \<^verbatim>\<open>{content: [{type: "text", text}], isError}\<close>. The three
  results with \<open>isError\<close> set are the ones the spec calls ValidationError,
  NotFoundError and InvalidModeError.
\<close>

record tool_result =
  text_content :: string
  isError :: bool

definition tsx_required :: tool_result where
  "tsx_required =
    \<lparr>text_content = ''tsx is required when mode is show and window does not exist.'',
     isError = True\<rparr>"

definition not_found :: "string \<Rightarrow> tool_result" where
  "not_found n =
    \<lparr>text_content = ''User interface named '' @ [CHR 0x22] @ n @ [CHR 0x22] @ '' not found.'',
     isError = True\<rparr>"

definition state_text :: "jstext \<Rightarrow> tool_result" where
  "state_text windowState = \<lparr>text_content = template windowState, isError = False\<rparr>"

definition invalid_mode :: tool_result where
  "invalid_mode =
    \<lparr>text_content = ''Invalid mode '' @ [CHR 0x22] @ ''undefined'' @ [CHR 0x22] @ ''.'',
     isError = True\<rparr>"

definition show_mode :: "invocation \<Rightarrow> world \<Rightarrow> (failure + tool_result) \<times> world" where
  "show_mode call w =
    (let windowState = readWindow w (name call) in
     if tsx call = None \<and> windowState = JNull then (Inr tsx_required, w)
     else
       (case tsx call of
          Some t \<Rightarrow>
            (case writeFile w (filePath (name call)) t of
               Inl e \<Rightarrow> (Inl e, w)
             | Inr w1 \<Rightarrow>
                 (Inr (state_text windowState),
                  openFile (notification w1 ''notifications/resources/list_changed'')
                    (filePath (name call))))
        | None \<Rightarrow>
            (case json call of
               Some j \<Rightarrow>
                 (let (windowState', w1) = injectWindow w (name call) (JString j)
                  in (Inr (state_text windowState'), openFile w1 (filePath (name call))))
             | None \<Rightarrow> (Inr (state_text windowState), openFile w (filePath (name call))))))"

definition set_mode :: "invocation \<Rightarrow> world \<Rightarrow> (failure + tool_result) \<times> world" where
  "set_mode call w =
    (let (windowState, w1) = injectWindow w (name call) (as_string (json call)) in
     if windowState = JNull then (Inr (not_found (name call)), w1)
     else (Inr (state_text windowState), w1))"

definition get_mode :: "invocation \<Rightarrow> world \<Rightarrow> (failure + tool_result) \<times> world" where
  "get_mode call w =
    (let windowState = readWindow w (name call) in
     if windowState = JNull then (Inr (not_found (name call)), w)
     else (Inr (state_text windowState), w))"

definition describe_mode :: "invocation \<Rightarrow> world \<Rightarrow> (failure + tool_result) \<times> world" where
  "describe_mode call w =
    (let windowState = describeWindow w (name call) in
     if windowState = JNull then (Inr (not_found (name call)), w)
     else (Inr (state_text windowState), w))"

text \<open>
  The handler. The schema admits the four modes and an omitted mode, which alone
  reaches the last branch.
\<close>

definition pop_ui :: "invocation \<Rightarrow> world \<Rightarrow> (failure + tool_result) \<times> world" where
  "pop_ui call w =
    (case mode call of
       Some MShow \<Rightarrow> show_mode call w
     | Some MSet \<Rightarrow> set_mode call w
     | Some MGet \<Rightarrow> get_mode call w
     | Some MDescribe \<Rightarrow> describe_mode call w
     | None \<Rightarrow> (Inr invalid_mode, w))"

text \<open>
  The resource \<^verbatim>\<open>ui://list\<close>: the entries with extension \<^verbatim>\<open>.tsx\<close>, each without it.
  The callback answers the JSON text of this array.
\<close>

definition ui_list :: "world \<Rightarrow> string list" where
  "ui_list w =
    map (\<lambda>fileName. basename fileName ''.tsx'')
      (filter (\<lambda>fileName. extname fileName = ''.tsx'') (listFiles w))"

section \<open>Sessions and the message route\<close>

text \<open>
  The transports map: session id to transport, in insertion order, as a JavaScript
  \<^verbatim>\<open>Map\<close> keeps it. A transport is known by the session id its constructor gave it.
\<close>

datatype transport = SSEServerTransport (sessionId: string)

type_synonym transports = "(string \<times> transport) list"

text \<open>\<^verbatim>\<open>GET /sse\<close> stores the new transport; closing the connection deletes it.\<close>

definition sse_open :: "transport \<Rightarrow> transports \<Rightarrow> transports" where
  "sse_open t ts = AList.update (sessionId t) t ts"

definition sse_close :: "transport \<Rightarrow> transports \<Rightarrow> transports" where
  "sse_close t ts = AList.delete (sessionId t) ts"

text \<open>
  The three places a session id is looked for. \<open>body_sessionId\<close> is the value of
  \<^verbatim>\<open>req.body && req.body.sessionId\<close>.
\<close>

record request =
  body_sessionId :: jsval
  header_x_session_id :: jsval
  query_sessionId :: jsval

text \<open>
  What the handler does with the message: answers a status and an error text itself,
  or hands it to a transport's \<^verbatim>\<open>handlePostMessage\<close>, which answers it (what that
  method of the SDK does, and the status 500 the handler's \<^verbatim>\<open>catch\<close> answers if it
  throws, lie beyond this point).
\<close>

datatype response = Json nat string | HandlePostMessage transport

definition find_sessionId :: "request \<Rightarrow> jsval" where
  "find_sessionId req =
    (if truthy (body_sessionId req) then body_sessionId req
     else if truthy (header_x_session_id req) then header_x_session_id req
     else if truthy (query_sessionId req) then query_sessionId req
     else Null)"

text \<open>\<^verbatim>\<open>transports.get(sessionId)\<close>; only a string is ever a key.\<close>

fun transports_get :: "transports \<Rightarrow> jsval \<Rightarrow> transport option" where
  "transports_get ts (Str k) = map_of ts k"
| "transports_get ts _ = None"

definition post_messages :: "transports \<Rightarrow> request \<Rightarrow> response \<times> transports" where
  "post_messages ts req =
    (case ts of
       [] \<Rightarrow> (Json 503 ''No active SSE connections'', ts)
     | (firstSessionId, first) # _ \<Rightarrow>
         (let sessionId = find_sessionId req in
          case (if truthy sessionId then transports_get ts sessionId else None) of
            Some t \<Rightarrow> (HandlePostMessage t, ts)
          | None \<Rightarrow> (HandlePostMessage first, ts)))"

section \<open>Reading the trace, and two small worlds\<close>

fun is_injected :: "effect \<Rightarrow> bool" where
  "is_injected (Injected n v) = True"
| "is_injected _ = False"

text \<open>Some state is injected at a point of the trace that follows an open request.\<close>

fun injected_after_open :: "effect list \<Rightarrow> bool" where
  "injected_after_open [] = False"
| "injected_after_open (OpenRequested p # es) = (list_ex is_injected es \<or> injected_after_open es)"
| "injected_after_open (e # es) = injected_after_open es"

text \<open>
  A world whose surface \<^verbatim>\<open>panel\<close> has the backing content \<^verbatim>\<open>P\<close>, is rendered and
  reports the state \<^verbatim>\<open>{}\<close>.
\<close>

definition panel_live :: world where
  "panel_live =
    surface_reports ''panel'' ''{}''
      (startup\<lparr>files := DAList.update ''panel.tsx'' ''P'' DAList.empty\<rparr>)"

text \<open>Session \<^verbatim>\<open>A\<close> connects, then session \<^verbatim>\<open>B\<close>.\<close>

definition two_sessions :: transports where
  "two_sessions = sse_open (SSEServerTransport ''B'') (sse_open (SSEServerTransport ''A'') [])"

section \<open>Paths and stored content\<close>

lemma split_path_plain: "CHR ''/'' \<notin> set s \<Longrightarrow> split_path s = [s]"
  by (induction s) auto

lemma entry_of_plain:
  assumes "CHR ''/'' \<notin> set n"
  shows "entry_of dir (n @ ''.tsx'') = Some (n @ ''.tsx'')"
proof -
  from assms have "CHR ''/'' \<notin> set (n @ ''.tsx'')" by simp
  then have s: "split_path (n @ ''.tsx'') = [n @ ''.tsx'']" by (rule split_path_plain)
  have "length (n @ ''.tsx'') \<ge> 4" by simp
  then have "n @ ''.tsx'' \<noteq> [] \<and> n @ ''.tsx'' \<noteq> ''.'' \<and> n @ ''.tsx'' \<noteq> ''..''"
    by auto
  then show ?thesis by (simp add: entry_of_def path_join_def s)
qed

lemma store_file_plain:
  "CHR ''/'' \<notin> set n \<Longrightarrow>
   store_file w (filePath n) c = w\<lparr>files := DAList.update (n @ ''.tsx'') c (files w)\<rparr>"
  by (simp add: filePath_def entry_of_plain)

lemma backing_content_plain:
  "CHR ''/'' \<notin> set n \<Longrightarrow> backing_content w n = DAList.lookup (files w) (n @ ''.tsx'')"
  by (simp add: backing_content_def filePath_def entry_of_plain)

lemma filePath_eq: "(filePath n = InUploadsDir f) = (n @ ''.tsx'' = f)"
  by (simp add: filePath_def)

lemma stored_store_file: "stored (store_file w p c) p = Some c"
  by (cases p) (simp split: option.splits)

lemma store_file_keeps:
  "trace (store_file w p c) = trace w" "live (store_file w p c) = live w"
  "schema (store_file w p c) = schema w" "write_fails (store_file w p c) = write_fails w"
  "uploadsDir (store_file w p c) = uploadsDir w"
  by (cases p; simp split: option.splits)+

lemma stored_trace: "stored (w\<lparr>trace := t\<rparr>) p = stored w p"
  by (cases p) (simp split: option.splits)

lemma stored_live: "stored (w\<lparr>live := l\<rparr>) p = stored w p"
  by (cases p) (simp split: option.splits)

lemma stored_startup: "stored startup p = None"
  by (cases p) (simp add: startup_def split: option.splits)

lemma reported_not_null: "reported v \<noteq> JNull"
  by (cases v) simp_all

lemma readWindow_null_iff: "(readWindow w n = JNull) = (backing_content w n = None)"
  by (simp add: readWindow_def reported_not_null)

lemma startup_reads_null: "readWindow startup n = JNull"
  by (simp add: readWindow_def backing_content_def stored_startup)

section \<open>Each mode, as one equation\<close>

lemma show_with_content:
  "pop_ui \<lparr>name = n, mode = Some MShow, json = j, tsx = Some c\<rparr> w =
    (if write_fails w (n @ ''.tsx'') then (Inl (WriteRejected (filePath n)), w)
     else (Inr (state_text (readWindow w n)),
           (store_file w (filePath n) c)
             \<lparr>trace := trace w @ [Wrote (filePath n) c,
                                 Notified ''notifications/resources/list_changed'',
                                 OpenRequested (filePath n)]\<rparr>))"
  by (simp add: pop_ui_def show_mode_def filePath_def notification_def openFile_def
      store_file_keeps del: store_file.simps)

lemma show_without_content:
  "pop_ui \<lparr>name = n, mode = Some MShow, json = j, tsx = None\<rparr> w =
    (if backing_content w n = None then (Inr tsx_required, w)
     else case j of
       None \<Rightarrow>
         (Inr (state_text (readWindow w n)), w\<lparr>trace := trace w @ [OpenRequested (filePath n)]\<rparr>)
     | Some v \<Rightarrow>
         (Inr (state_text (JString v)),
          w\<lparr>live := (live w)(n := JString v),
            trace := trace w @ [Injected n (JString v), OpenRequested (filePath n)]\<rparr>))"
  by (simp add: pop_ui_def show_mode_def injectWindow_def openFile_def readWindow_null_iff
      Let_def split: option.splits)

lemma set_call:
  "pop_ui \<lparr>name = n, mode = Some MSet, json = j, tsx = t\<rparr> w =
    (if backing_content w n = None then (Inr (not_found n), w)
     else (Inr (state_text (as_string j)),
           w\<lparr>live := (live w)(n := as_string j),
             trace := trace w @ [Injected n (as_string j)]\<rparr>))"
  by (cases j) (simp_all add: pop_ui_def set_mode_def injectWindow_def)

lemma get_call:
  "pop_ui \<lparr>name = n, mode = Some MGet, json = j, tsx = t\<rparr> w =
    (if readWindow w n = JNull then (Inr (not_found n), w)
     else (Inr (state_text (readWindow w n)), w))"
  by (simp add: pop_ui_def get_mode_def)

lemma describe_call:
  "pop_ui \<lparr>name = n, mode = Some MDescribe, json = j, tsx = t\<rparr> w =
    (if describeWindow w n = JNull then (Inr (not_found n), w)
     else (Inr (state_text (describeWindow w n)), w))"
  by (simp add: pop_ui_def describe_mode_def)

text \<open>The first show of \<^verbatim>\<open>a\<close> after startup, used by the examples below.\<close>

lemma first_show:
  "pop_ui \<lparr>name = ''a'', mode = Some MShow, json = j, tsx = Some c\<rparr> startup =
     (Inr (state_text JNull),
      snd (pop_ui \<lparr>name = ''a'', mode = Some MShow, json = j, tsx = Some c\<rparr> startup))"
  by (simp add: show_with_content startup_reads_null) (simp add: startup_def)

lemma backing_content_after_show:
  assumes "pop_ui \<lparr>name = n, mode = Some MShow, json = j, tsx = Some c\<rparr> w = (Inr r, w1)"
  shows "backing_content w1 n = Some c" and "live w1 = live w"
  using assms
  by (auto simp: show_with_content backing_content_def stored_trace stored_store_file
      store_file_keeps split: if_splits)

lemma panel_has_content: "backing_content panel_live ''panel'' = Some ''P''"
  by (simp add: backing_content_plain panel_live_def surface_reports_def startup_def)

section \<open>The listing\<close>

lemma extname_tsx: "n \<noteq> [] \<Longrightarrow> extname (n @ ''.tsx'') = ''.tsx''"
  by (simp add: extname_def)

lemma basename_tsx: "n \<noteq> [] \<Longrightarrow> basename (n @ ''.tsx'') ''.tsx'' = n"
  by (simp add: basename_def)

lemma extname_suffix:
  assumes "extname f = ''.tsx''"
  shows "f = basename f ''.tsx'' @ ''.tsx''"
proof -
  define k where "k = length f - Suc (length (takeWhile (\<lambda>c. c \<noteq> CHR ''.'') (rev f)))"
  from assms have d: "drop k f = ''.tsx''" and k0: "k \<noteq> 0"
    by (auto simp: extname_def k_def Let_def split: if_splits)
  from d have "length (drop k f) = 4" by simp
  then have "length f - k = 4" by simp
  with k0 have kk: "k = length f - 4" and l4: "4 < length f" by auto
  have f: "f = take k f @ ''.tsx''" using d by (metis append_take_drop_id)
  from l4 have ne: "''.tsx'' \<noteq> f" by auto
  show ?thesis using d kk l4 ne f by (simp add: basename_def eval_nat_numeral)
qed

lemma listed_iff:
  "n \<noteq> [] \<Longrightarrow> (extname f = ''.tsx'' \<and> basename f ''.tsx'' = n) = (f = n @ ''.tsx'')"
  using extname_suffix [of f] extname_tsx [of n] basename_tsx [of n] by auto

lemma count_list_distinct: "distinct xs \<Longrightarrow> count_list xs k = (if k \<in> set xs then 1 else 0)"
  by (induction xs) auto

lemma count_listed:
  "n \<noteq> [] \<Longrightarrow>
   count_list (map (\<lambda>f. basename f ''.tsx'') (filter (\<lambda>f. extname f = ''.tsx'') xs)) n =
   count_list xs (n @ ''.tsx'')"
proof (induction xs)
  case Nil
  then show ?case by simp
next
  case (Cons f xs)
  then show ?case using listed_iff [of n f] by auto
qed

lemma ui_list_count:
  assumes "n \<noteq> []"
  shows "count_list (ui_list w) n = (if DAList.lookup (files w) (n @ ''.tsx'') = None then 0 else 1)"
proof -
  have "(n @ ''.tsx'' \<in> set (map fst (DAList.impl_of (files w)))) =
        (DAList.lookup (files w) (n @ ''.tsx'') \<noteq> None)"
    by (simp add: DAList.lookup.rep_eq map_of_eq_None_iff)
  then show ?thesis
    using assms count_listed [of n "map fst (DAList.impl_of (files w))"]
      count_list_distinct [of "map fst (DAList.impl_of (files w))" "n @ ''.tsx''"]
    by (simp add: ui_list_def listFiles_def)
qed

section \<open>The claims about \<^verbatim>\<open>show\<close>\<close>

text \<open>
  C1. A show that supplies content and a state to inject should apply that state to the
  surface, as a set would. The handler reaches \<^verbatim>\<open>injectWindow\<close> only in the
  \<^verbatim>\<open>else if\<close> of \<^verbatim>\<open>tsx !== undefined\<close>: on the surface \<^verbatim>\<open>panel\<close>, which reports
  \<^verbatim>\<open>{}\<close>, a show with content \<^verbatim>\<open>T\<close> and state \<^verbatim>\<open>[1]\<close> writes the file, notifies and
  requests the opening, and the surface still reports \<^verbatim>\<open>{}\<close>; a set with the same state
  leaves it reporting \<^verbatim>\<open>[1]\<close>.
\<close>

theorem show_with_content_drops_state:
  "pop_ui \<lparr>name = ''panel'', mode = Some MShow, json = Some ''[1]'', tsx = Some ''T''\<rparr> panel_live =
     (Inr \<lparr>text_content = ''{}'', isError = False\<rparr>,
      panel_live\<lparr>files := DAList.update ''panel.tsx'' ''T'' DAList.empty,
                 trace := [Wrote (InUploadsDir ''panel.tsx'') ''T'',
                           Notified ''notifications/resources/list_changed'',
                           OpenRequested (InUploadsDir ''panel.tsx'')]\<rparr>)
   \<and> readWindow
        (snd (pop_ui \<lparr>name = ''panel'', mode = Some MShow, json = Some ''[1]'', tsx = Some ''T''\<rparr>
           panel_live)) ''panel'' = JString ''{}''
   \<and> readWindow
        (snd (pop_ui \<lparr>name = ''panel'', mode = Some MSet, json = Some ''[1]'', tsx = None\<rparr>
           panel_live)) ''panel'' = JString ''[1]''"
  by (simp add: show_with_content set_call store_file_plain backing_content_plain filePath_eq
      panel_live_def surface_reports_def startup_def readWindow_def state_text_def)

text \<open>
  C2, as stated: in a show that supplies content, a state to inject is injected after the
  open request. At the same call as above no state is injected after the open request.
\<close>

theorem no_injection_after_open:
  "\<not> injected_after_open
      (trace (snd (pop_ui \<lparr>name = ''panel'', mode = Some MShow, json = Some ''[1]'', tsx = Some ''T''\<rparr>
         panel_live)))"
  by (simp add: show_with_content panel_live_def surface_reports_def startup_def)

text \<open>
  C2, amended. A show that supplies content and returns a result has added to the trace,
  injections left aside, exactly these steps in this order: the content written under
  the name, the list-changed notification, the open request.
\<close>

theorem content_then_notification_then_open:
  assumes "pop_ui \<lparr>name = n, mode = Some MShow, json = j, tsx = Some c\<rparr> w = (Inr r, w')"
  shows "take (length (trace w)) (trace w') = trace w
       \<and> filter (\<lambda>e. \<not> is_injected e) (drop (length (trace w)) (trace w')) =
           [Wrote (filePath n) c, Notified ''notifications/resources/list_changed'',
            OpenRequested (filePath n)]"
  using assms by (auto simp: show_with_content filePath_def split: if_splits)

theorem content_then_notification_then_open_witness:
  "take (length (trace startup))
     (trace (snd (pop_ui \<lparr>name = ''a'', mode = Some MShow, json = Some ''[1]'', tsx = Some ''A''\<rparr>
        startup))) = trace startup
   \<and> filter (\<lambda>e. \<not> is_injected e)
       (drop (length (trace startup))
         (trace (snd (pop_ui \<lparr>name = ''a'', mode = Some MShow, json = Some ''[1]'', tsx = Some ''A''\<rparr>
            startup)))) =
       [Wrote (filePath ''a'') ''A'', Notified ''notifications/resources/list_changed'',
        OpenRequested (filePath ''a'')]"
  by (rule content_then_notification_then_open [OF first_show])

text \<open>
  C3. After a show with content has returned its result, the surface has that backing
  content, and a get is answered with a result that is not an error: the text of what
  the bridge reads, which is not \<^verbatim>\<open>null\<close>. This holds while the surface has reported
  no state, when the text is \<^verbatim>\<open>undefined\<close>, and after it has reported one. In any world
  get answers "not found" exactly for a name without backing content.
\<close>

theorem get_after_show_succeeds:
  assumes "pop_ui \<lparr>name = n, mode = Some MShow, json = j, tsx = Some c\<rparr> w = (Inr r, w1)"
  shows "backing_content w1 n = Some c
       \<and> pop_ui \<lparr>name = n, mode = Some MGet, json = j', tsx = t'\<rparr> w1 =
           (Inr \<lparr>text_content = template (readWindow w1 n), isError = False\<rparr>, w1)
       \<and> readWindow w1 n \<noteq> JNull
       \<and> (live w1 n = JNull \<longrightarrow>
            fst (pop_ui \<lparr>name = n, mode = Some MGet, json = j', tsx = t'\<rparr> w1) =
              Inr \<lparr>text_content = ''undefined'', isError = False\<rparr>)
       \<and> pop_ui \<lparr>name = n, mode = Some MGet, json = j', tsx = t'\<rparr> (surface_reports n s w1) =
           (Inr \<lparr>text_content = s, isError = False\<rparr>, surface_reports n s w1)
       \<and> (fst (pop_ui \<lparr>name = n, mode = Some MGet, json = j', tsx = t'\<rparr> w') = Inr (not_found n))
           = (backing_content w' n = None)"
proof -
  have b: "backing_content w1 n = Some c"
    using assms by (rule backing_content_after_show)
  then have "backing_content (surface_reports n s w1) n = Some c"
    by (simp add: backing_content_def surface_reports_def stored_live)
  with b show ?thesis
    by (auto simp: get_call readWindow_def reported_not_null surface_reports_def state_text_def
        not_found_def)
qed

theorem get_after_show_succeeds_witness:
  "backing_content
     (snd (pop_ui \<lparr>name = ''a'', mode = Some MShow, json = None, tsx = Some ''A''\<rparr> startup)) ''a''
     = Some ''A''
   \<and> live (snd (pop_ui \<lparr>name = ''a'', mode = Some MShow, json = None, tsx = Some ''A''\<rparr> startup)) ''a''
     = JNull
   \<and> pop_ui \<lparr>name = ''a'', mode = Some MGet, json = None, tsx = None\<rparr>
        (snd (pop_ui \<lparr>name = ''a'', mode = Some MShow, json = None, tsx = Some ''A''\<rparr> startup)) =
       (Inr \<lparr>text_content = ''undefined'', isError = False\<rparr>,
        snd (pop_ui \<lparr>name = ''a'', mode = Some MShow, json = None, tsx = Some ''A''\<rparr> startup))
   \<and> fst (pop_ui \<lparr>name = ''a'', mode = Some MGet, json = None, tsx = None\<rparr>
        (surface_reports ''a'' ''{}''
          (snd (pop_ui \<lparr>name = ''a'', mode = Some MShow, json = None, tsx = Some ''A''\<rparr> startup)))) =
       Inr \<lparr>text_content = ''{}'', isError = False\<rparr>
   \<and> fst (pop_ui \<lparr>name = ''a'', mode = Some MGet, json = None, tsx = None\<rparr> startup) =
       Inr (not_found ''a'')"
proof -
  let ?w1 = "snd (pop_ui \<lparr>name = ''a'', mode = Some MShow, json = None, tsx = Some ''A''\<rparr> startup)"
  have l: "live ?w1 ''a'' = JNull"
    using backing_content_after_show(2) [OF first_show [of None "''A''"]]
    by (simp add: startup_def)
  have n: "backing_content startup ''a'' = None"
    by (simp add: backing_content_def stored_startup)
  have g: "pop_ui \<lparr>name = ''a'', mode = Some MGet, json = None, tsx = None\<rparr> ?w1 =
      (fst (pop_ui \<lparr>name = ''a'', mode = Some MGet, json = None, tsx = None\<rparr> ?w1), ?w1)"
    using get_after_show_succeeds [OF first_show [of None "''A''"], of None None]
    by (metis fst_conv)
  show ?thesis
    using get_after_show_succeeds [OF first_show [of None "''A''"], of None None "''{}''" startup]
      l n g
    by (metis fst_conv)
qed

text \<open>
  C4. A show fails with the "tsx is required" result exactly when no content is supplied
  and the surface is absent, that is, the name has no backing content; the world is then
  what it was: nothing is written and no opening is requested.
\<close>

theorem show_fails_exactly_without_content_and_surface:
  assumes "mode call = Some MShow"
  shows "(fst (pop_ui call w) = Inr tsx_required) =
           (tsx call = None \<and> backing_content w (name call) = None)
       \<and> (fst (pop_ui call w) = Inr tsx_required \<longrightarrow> snd (pop_ui call w) = w)"
  using assms
  by (auto simp: pop_ui_def show_mode_def Let_def tsx_required_def state_text_def
      readWindow_null_iff split: option.splits sum.splits prod.splits)

theorem show_fails_witness:
  "fst (pop_ui \<lparr>name = ''a'', mode = Some MShow, json = Some ''[1]'', tsx = None\<rparr> startup)
     = Inr tsx_required
   \<and> snd (pop_ui \<lparr>name = ''a'', mode = Some MShow, json = Some ''[1]'', tsx = None\<rparr> startup)
     = startup
   \<and> fst (pop_ui \<lparr>name = ''a'', mode = Some MShow, json = None, tsx = Some ''A''\<rparr> startup)
     \<noteq> Inr tsx_required
   \<and> fst (pop_ui \<lparr>name = ''a'', mode = Some MShow, json = None, tsx = None\<rparr>
        (snd (pop_ui \<lparr>name = ''a'', mode = Some MShow, json = None, tsx = Some ''A''\<rparr> startup)))
     \<noteq> Inr tsx_required"
proof -
  have n: "backing_content startup ''a'' = None"
    by (simp add: backing_content_def stored_startup)
  have s: "backing_content
      (snd (pop_ui \<lparr>name = ''a'', mode = Some MShow, json = None, tsx = Some ''A''\<rparr> startup)) ''a''
      = Some ''A''"
    by (rule backing_content_after_show(1) [OF first_show])
  show ?thesis
    using show_fails_exactly_without_content_and_surface
      [of "\<lparr>name = ''a'', mode = Some MShow, json = Some ''[1]'', tsx = None\<rparr>" startup]
      show_fails_exactly_without_content_and_surface
      [of "\<lparr>name = ''a'', mode = Some MShow, json = None, tsx = Some ''A''\<rparr>" startup]
      show_fails_exactly_without_content_and_surface
      [of "\<lparr>name = ''a'', mode = Some MShow, json = None, tsx = None\<rparr>"
        "snd (pop_ui \<lparr>name = ''a'', mode = Some MShow, json = None, tsx = Some ''A''\<rparr> startup)"]
      n s
    by simp
qed

section \<open>The claims about names that do not exist, and about the listing\<close>

text \<open>
  C5. For a name that has no stored content and for which the bridge reads \<^verbatim>\<open>null\<close>,
  set, get and describe each answer "not found" and leave the world exactly as it was,
  so that a get after any of them is answered "not found" as well.
\<close>

theorem absent_name_not_found_not_created:
  assumes "DAList.lookup (files w) (n @ ''.tsx'') = None" and "readWindow w n = JNull"
    and "m = MSet \<or> m = MGet \<or> m = MDescribe"
  shows "pop_ui \<lparr>name = n, mode = Some m, json = j, tsx = t\<rparr> w = (Inr (not_found n), w)
       \<and> pop_ui \<lparr>name = n, mode = Some MGet, json = j', tsx = t'\<rparr>
           (snd (pop_ui \<lparr>name = n, mode = Some m, json = j, tsx = t\<rparr> w)) = (Inr (not_found n), w)"
  using assms
  by (auto simp: set_call get_call describe_call readWindow_null_iff describeWindow_def)

theorem absent_name_witness:
  "pop_ui \<lparr>name = ''a'', mode = Some MSet, json = Some ''[1]'', tsx = None\<rparr> startup
     = (Inr (not_found ''a''), startup)
   \<and> pop_ui \<lparr>name = ''a'', mode = Some MGet, json = None, tsx = None\<rparr>
       (snd (pop_ui \<lparr>name = ''a'', mode = Some MSet, json = Some ''[1]'', tsx = None\<rparr> startup))
     = (Inr (not_found ''a''), startup)"
proof -
  have 1: "DAList.lookup (files startup) (''a'' @ ''.tsx'') = None" by (simp add: startup_def)
  have 3: "MSet = MSet \<or> MSet = MGet \<or> MSet = MDescribe" by simp
  show ?thesis
    by (rule absent_name_not_found_not_created [OF 1 startup_reads_null 3])
qed

text \<open>
  C6, as stated: for every name, two shows leave the second content stored and the name
  once in the listing. For the empty name the file is \<^verbatim>\<open>.tsx\<close>, a name without an
  extension for \<^verbatim>\<open>path.extname\<close>: the second content is stored, and the listing does
  not hold the name.
\<close>

theorem empty_name_not_listed:
  "DAList.lookup (files (snd (pop_ui \<lparr>name = [], mode = Some MShow, json = None, tsx = Some ''B''\<rparr>
      (snd (pop_ui \<lparr>name = [], mode = Some MShow, json = None, tsx = Some ''A''\<rparr> startup)))))
     ''.tsx'' = Some ''B''
   \<and> count_list (ui_list (snd (pop_ui \<lparr>name = [], mode = Some MShow, json = None, tsx = Some ''B''\<rparr>
      (snd (pop_ui \<lparr>name = [], mode = Some MShow, json = None, tsx = Some ''A''\<rparr> startup))))) [] = 0"
  by (simp add: show_with_content store_file_plain startup_def ui_list_def listFiles_def
      extname_def DAList.update.rep_eq DAList.empty.rep_eq)

text \<open>
  C6, amended. For a name that is not empty and holds no path separator, two shows with
  content that both return a result leave the second content stored under the name, and
  the name exactly once in the listing.
\<close>

theorem show_twice_last_content_listed_once:
  assumes "n \<noteq> []" and "CHR ''/'' \<notin> set n"
    and "pop_ui \<lparr>name = n, mode = Some MShow, json = j1, tsx = Some c1\<rparr> w = (Inr r1, w1)"
    and "pop_ui \<lparr>name = n, mode = Some MShow, json = j2, tsx = Some c2\<rparr> w1 = (Inr r2, w2)"
  shows "DAList.lookup (files w2) (n @ ''.tsx'') = Some c2 \<and> count_list (ui_list w2) n = 1"
proof -
  from assms(2,4) have "files w2 = DAList.update (n @ ''.tsx'') c2 (files w1)"
    by (auto simp: show_with_content store_file_plain split: if_splits)
  then have "DAList.lookup (files w2) (n @ ''.tsx'') = Some c2"
    by simp
  with ui_list_count [OF assms(1), of w2] show ?thesis by simp
qed

theorem show_twice_witness:
  "DAList.lookup (files (snd (pop_ui \<lparr>name = ''a'', mode = Some MShow, json = None, tsx = Some ''B''\<rparr>
      (snd (pop_ui \<lparr>name = ''a'', mode = Some MShow, json = None, tsx = Some ''A''\<rparr> startup)))))
     ''a.tsx'' = Some ''B''
   \<and> count_list (ui_list (snd (pop_ui \<lparr>name = ''a'', mode = Some MShow, json = None, tsx = Some ''B''\<rparr>
      (snd (pop_ui \<lparr>name = ''a'', mode = Some MShow, json = None, tsx = Some ''A''\<rparr> startup)))))
     ''a'' = 1"
proof -
  let ?w1 = "snd (pop_ui \<lparr>name = ''a'', mode = Some MShow, json = None, tsx = Some ''A''\<rparr> startup)"
  let ?w2 = "snd (pop_ui \<lparr>name = ''a'', mode = Some MShow, json = None, tsx = Some ''B''\<rparr> ?w1)"
  have 2: "pop_ui \<lparr>name = ''a'', mode = Some MShow, json = None, tsx = Some ''B''\<rparr> ?w1 =
      (Inr (state_text (readWindow ?w1 ''a'')), ?w2)"
    by (simp add: show_with_content store_file_keeps startup_def)
  show ?thesis
    using show_twice_last_content_listed_once [OF _ _ first_show 2] by simp
qed

section \<open>Routing a message\<close>

text \<open>
  C7. Sessions \<open>a\<close> and \<open>b\<close> are open, with different transports, and the message names
  \<open>b\<close>: in its body, or (the body naming none) in the header, or (neither naming one) in
  the query. Then the message is handed to the transport of \<open>b\<close>, not to that of \<open>a\<close>. A
  session id is the identifier the transport's constructor generates, never the empty
  string, which JavaScript would not count as a value that is present.
\<close>

theorem explicit_session_reaches_its_transport:
  assumes "map_of ts a = Some tA" and "map_of ts b = Some tB" and "tA \<noteq> tB" and "b \<noteq> []"
    and "body_sessionId req = Str b
       \<or> (\<not> truthy (body_sessionId req) \<and> header_x_session_id req = Str b)
       \<or> (\<not> truthy (body_sessionId req) \<and> \<not> truthy (header_x_session_id req)
           \<and> query_sessionId req = Str b)"
  shows "post_messages ts req = (HandlePostMessage tB, ts)
       \<and> fst (post_messages ts req) \<noteq> HandlePostMessage tA"
proof -
  from assms(4,5) have f: "find_sessionId req = Str b"
    by (auto simp: find_sessionId_def)
  from assms(2) obtain k t rest where ts: "ts = (k, t) # rest"
    by (cases ts) auto
  have "post_messages ts req = (HandlePostMessage tB, ts)"
    unfolding post_messages_def ts using f assms(2,4) by (simp add: ts)
  with assms(3) show ?thesis by simp
qed

theorem explicit_session_witness:
  "post_messages two_sessions
     \<lparr>body_sessionId = Undefined, header_x_session_id = Str ''B'', query_sessionId = Str ''A''\<rparr>
     = (HandlePostMessage (SSEServerTransport ''B''), two_sessions)
   \<and> fst (post_messages two_sessions
       \<lparr>body_sessionId = Undefined, header_x_session_id = Str ''B'', query_sessionId = Str ''A''\<rparr>)
     \<noteq> HandlePostMessage (SSEServerTransport ''A'')"
proof -
  have a: "map_of two_sessions ''A'' = Some (SSEServerTransport ''A'')"
    by (simp add: two_sessions_def sse_open_def)
  have b: "map_of two_sessions ''B'' = Some (SSEServerTransport ''B'')"
    by (simp add: two_sessions_def sse_open_def)
  show ?thesis
    using explicit_session_reaches_its_transport [OF a b, of
        "\<lparr>body_sessionId = Undefined, header_x_session_id = Str ''B'',
          query_sessionId = Str ''A''\<rparr>"]
    by simp
qed

text \<open>
  C8. A message submitted while no session is open is answered with status 503 and the
  text "No active SSE connections": an answer of the handler itself, not an exception,
  and the set of sessions is what it was.
\<close>

theorem no_session_is_answered_503:
  "post_messages [] req = (Json 503 ''No active SSE connections'', [])"
  by (simp add: post_messages_def)

section \<open>The remaining claims about \<^verbatim>\<open>set\<close> and \<^verbatim>\<open>show\<close>\<close>

text \<open>
  C9. A set without a state to inject should fail for the missing field. The handler
  passes \<^verbatim>\<open>json as string\<close> on unchecked: on the surface \<^verbatim>\<open>panel\<close> the bridge is asked
  to inject \<^verbatim>\<open>undefined\<close> and the call succeeds with the text \<^verbatim>\<open>undefined\<close>; where no
  surface of the name exists the answer is "not found".
\<close>

theorem set_without_state_injects_undefined:
  "pop_ui \<lparr>name = ''panel'', mode = Some MSet, json = None, tsx = None\<rparr> panel_live =
     (Inr \<lparr>text_content = ''undefined'', isError = False\<rparr>,
      panel_live\<lparr>live := (live panel_live)(''panel'' := JUndefined),
                 trace := [Injected ''panel'' JUndefined]\<rparr>)
   \<and> pop_ui \<lparr>name = ''panel'', mode = Some MSet, json = None, tsx = None\<rparr> startup =
     (Inr (not_found ''panel''), startup)"
  by (simp add: set_call backing_content_plain panel_live_def surface_reports_def startup_def
      state_text_def)




end
